theory Spec2Isabelle
  imports Complex_Main
begin

section \<open>Numbers and strings of the host language\<close>

text \<open>
  The program computes with Python floats. A float is modelled by its exact rational
  value, or by one of the three special values that \<^verbatim>\<open>float()\<close> can produce from a
  string. Rounding to the nearest binary double is not modelled: every finite value
  stands for itself.
\<close>

datatype pyfloat = Fin rat | PInf | NInf | NaN

text \<open>The chained comparison \<^verbatim>\<open>0 <= v <= 100\<close>; it is false for the special values.\<close>

fun pct_ok :: "pyfloat \<Rightarrow> bool" where
  "pct_ok (Fin r) = (0 \<le> r \<and> r \<le> 100)"
| "pct_ok PInf = False"
| "pct_ok NInf = False"
| "pct_ok NaN = False"

fun fin_val :: "pyfloat \<Rightarrow> rat" where
  "fin_val (Fin r) = r"
| "fin_val PInf = 0"
| "fin_val NInf = 0"
| "fin_val NaN = 0"

text \<open>
  Characters are the 8-bit characters of HOL strings. \<^verbatim>\<open>str.strip()\<close> removes the
  characters below from both ends.
\<close>

definition is_space :: "char \<Rightarrow> bool" where
  "is_space c = ((of_char c :: nat) \<in> {9, 10, 11, 12, 13, 28, 29, 30, 31, 32, 133, 160})"

definition strip :: "string \<Rightarrow> string" where
  "strip s = rev (dropWhile is_space (rev (dropWhile is_space s)))"

text \<open>
  \<^verbatim>\<open>float()\<close> ignores a smaller set around the number: the ASCII whitespace, and
  the two non-ASCII spaces, which it first turns into blanks. The separators
  \<^verbatim>\<open>0x1C\<close> to \<^verbatim>\<open>0x1F\<close>, which \<^verbatim>\<open>str.strip()\<close> removes, make it raise.
\<close>

definition is_float_space :: "char \<Rightarrow> bool" where
  "is_float_space c = ((of_char c :: nat) \<in> {9, 10, 11, 12, 13, 32, 133, 160})"

definition float_strip :: "string \<Rightarrow> string" where
  "float_strip s = rev (dropWhile is_float_space (rev (dropWhile is_float_space s)))"

definition is_digit :: "char \<Rightarrow> bool" where
  "is_digit c = (48 \<le> (of_char c :: nat) \<and> (of_char c :: nat) \<le> 57)"

definition digit_val :: "char \<Rightarrow> nat" where
  "digit_val c = of_char c - 48"

definition lower :: "char \<Rightarrow> char" where
  "lower c = (if 65 \<le> (of_char c :: nat) \<and> (of_char c :: nat) \<le> 90
              then char_of ((of_char c :: nat) + 32) else c)"

text \<open>
  A run of decimal digits in which single underscores may separate digits, as the
  float literal grammar allows. The digits read so far are accumulated as a number
  together with their count; the unread rest of the string is returned.
\<close>

fun digitpart :: "nat \<Rightarrow> nat \<Rightarrow> string \<Rightarrow> nat \<times> nat \<times> string" where
  "digitpart v n [] = (v, n, [])"
| "digitpart v n [c] = (if is_digit c then (10 * v + digit_val c, Suc n, []) else (v, n, [c]))"
| "digitpart v n (c # d # r) =
     (if is_digit c then digitpart (10 * v + digit_val c) (Suc n) (d # r)
      else if c = CHR ''_'' \<and> 0 < n \<and> is_digit d
           then digitpart (10 * v + digit_val d) (Suc n) r
      else (v, n, c # d # r))"

fun sign_of :: "string \<Rightarrow> bool \<times> string" where
  "sign_of [] = (False, [])"
| "sign_of (c # r) = (if c = CHR ''-'' then (True, r)
                      else if c = CHR ''+'' then (False, r) else (False, c # r))"

text \<open>The optional exponent \<^verbatim>\<open>(e|E)[+-]digits\<close>; \<open>None\<close> when it is malformed.\<close>

fun exponent :: "string \<Rightarrow> (int \<times> string) option" where
  "exponent [] = Some (0, [])"
| "exponent (c # r) =
     (if c = CHR ''e'' \<or> c = CHR ''E'' then
        (case sign_of r of (neg, r1) \<Rightarrow>
           (case digitpart 0 0 r1 of (v, n, r2) \<Rightarrow>
              if n = 0 then None else Some (if neg then - int v else int v, r2)))
      else Some (0, c # r))"

definition pow10 :: "int \<Rightarrow> rat" where
  "pow10 e = (if 0 \<le> e then 10 ^ nat e else 1 / 10 ^ nat (- e))"

text \<open>An unsigned decimal literal: \<^verbatim>\<open>digits[.[digits]][exp]\<close> or \<^verbatim>\<open>.digits[exp]\<close>.\<close>

definition decimal :: "string \<Rightarrow> rat option" where
  "decimal s =
     (case digitpart 0 0 s of (iv, inum, r1) \<Rightarrow>
        (case (case r1 of
                 c # r \<Rightarrow> if c = CHR ''.'' then
                            (case digitpart 0 0 r of (fv, fnum, r2) \<Rightarrow> (fv, fnum, r2))
                          else (0, 0, r1)
               | [] \<Rightarrow> (0, 0, r1)) of
           (fv, fnum, r2) \<Rightarrow>
             if inum = 0 \<and> fnum = 0 then None
             else (case exponent r2 of
                     None \<Rightarrow> None
                   | Some (e, r3) \<Rightarrow>
                       if r3 = [] then
                         Some ((of_nat iv + of_nat fv / 10 ^ fnum) * pow10 e)
                       else None)))"

text \<open>
  \<^verbatim>\<open>float(s)\<close> on a string: \<open>None\<close> is the \<^verbatim>\<open>ValueError\<close>. Surrounding
  whitespace is ignored, a sign may lead, and the words \<^verbatim>\<open>inf\<close>,
  \<^verbatim>\<open>infinity\<close> and \<^verbatim>\<open>nan\<close> are accepted in any letter case.
\<close>

definition py_float :: "string \<Rightarrow> pyfloat option" where
  "py_float s =
     (case sign_of (float_strip s) of (neg, body) \<Rightarrow>
        (let w = map lower body in
         if w = ''inf'' \<or> w = ''infinity'' then Some (if neg then NInf else PInf)
         else if w = ''nan'' then Some NaN
         else (case decimal body of
                 None \<Rightarrow> None
               | Some r \<Rightarrow> Some (Fin (if neg then - r else r)))))"

text \<open>\<^verbatim>\<open>s.split(':', 1)\<close> for a string that contains a colon, and \<^verbatim>\<open>s.split(':')\<close>.\<close>

definition split_first :: "char \<Rightarrow> string \<Rightarrow> string \<times> string" where
  "split_first c s = (takeWhile (\<lambda>x. x \<noteq> c) s, tl (dropWhile (\<lambda>x. x \<noteq> c) s))"

fun split_all :: "char \<Rightarrow> string \<Rightarrow> string list" where
  "split_all c [] = [[]]"
| "split_all c (x # xs) =
     (case split_all c xs of
        [] \<Rightarrow> [[x]]
      | p # ps \<Rightarrow> if x = c then [] # p # ps else (x # p) # ps)"

definition replace_none :: "char \<Rightarrow> string \<Rightarrow> string" where
  "replace_none c s = filter (\<lambda>x. x \<noteq> c) s"

definition mean :: "rat list \<Rightarrow> rat" where
  "mean xs = sum_list xs / of_nat (length xs)"

section \<open>The metrics extractor\<close>

text \<open>
  The dictionary \<^verbatim>\<open>metrics\<close> of \<^verbatim>\<open>get_fixed_ssm_metrics\<close>. The key
  \<^verbatim>\<open>efs_details\<close> is absent until the last line supplies four fields.
\<close>

record metrics =
  memory_percent :: rat
  disk_usage_avg :: rat
  disk_details :: "(string \<times> rat) list"
  collection_method :: string
  success :: bool
  efs_attached :: bool
  efs_details :: "(string \<times> string \<times> string \<times> string) option"

definition initial_metrics :: metrics where
  "initial_metrics = \<lparr>memory_percent = 0, disk_usage_avg = 0, disk_details = [],
     collection_method = ''none'', success = False, efs_attached = False,
     efs_details = None\<rparr>"

text \<open>The memory line: \<^verbatim>\<open>lines[0]\<close>, when there is one.\<close>

definition parse_memory :: "string list \<Rightarrow> metrics \<Rightarrow> metrics" where
  "parse_memory lines m =
     (case lines of
        [] \<Rightarrow> m
      | l # _ \<Rightarrow>
          (case py_float l of
             None \<Rightarrow> m
           | Some v \<Rightarrow> if pct_ok v then m\<lparr>memory_percent := fin_val v, success := True\<rparr>
                        else m))"

text \<open>One \<^verbatim>\<open>filesystem:percent\<close> line; \<open>None\<close> when the line is skipped.\<close>

definition parse_disk_line :: "string \<Rightarrow> (string \<times> rat) option" where
  "parse_disk_line l =
     (if CHR '':'' \<in> set l then
        (case split_first CHR '':'' l of (filesystem, percent_str) \<Rightarrow>
           (case py_float (replace_none CHR ''%'' percent_str) of
              None \<Rightarrow> None
            | Some v \<Rightarrow> if pct_ok v then Some (filesystem, fin_val v) else None))
      else None)"

definition end_index :: "string list \<Rightarrow> nat" where
  "end_index lines = (if length lines > 3 then length lines - 2 else length lines - 1)"

text \<open>The loop \<^verbatim>\<open>for i in range(1, end_index)\<close> over the middle lines.\<close>

definition disk_lines :: "string list \<Rightarrow> string list" where
  "disk_lines lines = map (\<lambda>i. lines ! i) [1 ..< end_index lines]"

definition parse_disks :: "string list \<Rightarrow> (string \<times> rat) list" where
  "parse_disks lines = List.map_filter parse_disk_line (disk_lines lines)"

definition avg_disk_line :: "string list \<Rightarrow> string" where
  "avg_disk_line lines =
     (if length lines > 3 then lines ! (length lines - 2) else last lines)"

definition parse_avg_disk :: "string list \<Rightarrow> rat list \<Rightarrow> metrics \<Rightarrow> metrics" where
  "parse_avg_disk lines disk_usages m =
     (if length lines > 2 then
        (case py_float (avg_disk_line lines) of
           None \<Rightarrow> if disk_usages \<noteq> [] then m\<lparr>disk_usage_avg := mean disk_usages\<rparr> else m
         | Some v \<Rightarrow> if pct_ok v then m\<lparr>disk_usage_avg := fin_val v\<rparr> else m)
      else if disk_usages \<noteq> [] then m\<lparr>disk_usage_avg := mean disk_usages\<rparr>
      else m)"

definition parse_efs :: "string list \<Rightarrow> metrics \<Rightarrow> metrics" where
  "parse_efs lines m =
     (if length lines > 3 then
        (let efs_line = strip (last lines) in
         if efs_line \<noteq> [] \<and> efs_line \<noteq> ''NO_EFS'' then
           (let m1 = m\<lparr>efs_attached := True\<rparr> in
            if CHR '':'' \<in> set efs_line then
              (case split_all CHR '':'' efs_line of
                 a # b # c # d # _ \<Rightarrow> m1\<lparr>efs_details := Some (a, b, c, d)\<rparr>
               | _ \<Rightarrow> m1)
            else m1)
         else m\<lparr>efs_attached := False\<rparr>)
      else m)"

text \<open>
  The body of the \<^verbatim>\<open>status == 'Success'\<close> branch once \<^verbatim>\<open>lines\<close> is known:
  memory, per-filesystem pairs, average disk usage, network filesystem, in this order.
\<close>

definition get_fixed_ssm_metrics_lines :: "string list \<Rightarrow> metrics" where
  "get_fixed_ssm_metrics_lines lines =
     (let m1 = parse_memory lines initial_metrics;
          details = parse_disks lines;
          m2 = m1\<lparr>disk_details := details\<rparr>;
          m3 = parse_avg_disk lines (map snd details) m2;
          m4 = parse_efs lines m3
      in m4\<lparr>collection_method := ''ssm_fixed''\<rparr>)"

text \<open>
  From the command's standard output: the output is stripped, and when something is
  left it is cut at newlines into stripped, non-empty lines.
\<close>

definition stdout_lines :: "string \<Rightarrow> string list" where
  "stdout_lines stdout =
     filter (\<lambda>l. l \<noteq> []) (map strip (split_all CHR 0x0A (strip stdout)))"

definition get_fixed_ssm_metrics_stdout :: "string \<Rightarrow> metrics" where
  "get_fixed_ssm_metrics_stdout stdout =
     (if strip stdout = [] then initial_metrics
      else get_fixed_ssm_metrics_lines (stdout_lines stdout))"

section \<open>The rightsizing analyzer\<close>

text \<open>
  The methods of the source whose names begin with an underscore
  (\<^verbatim>\<open>_calculate_utilization_stats\<close>, \<^verbatim>\<open>_generate_instance_recommendation\<close>,
  \<^verbatim>\<open>_generate_monthly_summary\<close>, the three type lookups and the cost estimates) keep
  their names without it.
\<close>

subsection \<open>History rows and statistics\<close>

text \<open>
  One row of the history table. \<open>Date\<close> is the row's timestamp after
  \<^verbatim>\<open>pd.to_datetime(..., errors='coerce')\<close>, in microseconds, \<open>None\<close> for a value
  that does not convert. The three utilization cells are what
  \<^verbatim>\<open>pd.to_numeric(..., errors='coerce')\<close> makes of them: \<open>None\<close> for a cell that is
  not a number. A table without the disk column is a table whose disk cells are all
  \<open>None\<close>: both give no disk statistics.
\<close>

record row =
  Date :: "int option"
  ID :: string
  Service :: string
  Type :: string
  Name_Tag :: string
  CPUUtilization :: "rat option"
  RAMUtilization :: "rat option"
  DiskUsage :: "rat option"

text \<open>
  The dictionary returned by \<^verbatim>\<open>_calculate_utilization_stats\<close>. Four of its keys
  exist only when the column holds a number; a missing key is \<open>None\<close>. The keys
  \<^verbatim>\<open>max\<close> and \<^verbatim>\<open>min\<close> are the fields \<open>max_val\<close> and \<open>min_val\<close>.
\<close>

record stats =
  avg :: rat
  max_val :: rat
  min_val :: rat
  p95 :: rat
  p90 :: rat
  low_usage_days :: nat
  high_usage_days :: "nat option"
  total_days :: "nat option"
  low_usage_percentage :: "rat option"
  high_usage_percentage :: "rat option"

text \<open>
  \<^verbatim>\<open>round(x, n)\<close>: to the nearest multiple of \<open>10\<^sup>-\<^sup>n\<close>, ties to even, on the
  exact value. The source rounds a binary double, so the two can differ in the last digit
  where the exact value lies on or next to a decimal tie.
\<close>

definition round_half_even :: "rat \<Rightarrow> int" where
  "round_half_even x =
     (let f = \<lfloor>x\<rfloor>; d = x - of_int f in
      if d < 1 / 2 then f else if d > 1 / 2 then f + 1
      else if even f then f else f + 1)"

definition py_round :: "rat \<Rightarrow> nat \<Rightarrow> rat" where
  "py_round x n = of_int (round_half_even (x * 10 ^ n)) / 10 ^ n"

text \<open>
  \<^verbatim>\<open>Series.quantile(q)\<close> with the default linear interpolation, for a non-empty
  series and \<open>0 \<le> q \<le> 1\<close>.
\<close>

definition quantile :: "rat list \<Rightarrow> rat \<Rightarrow> rat" where
  "quantile values q =
     (let s = sort values;
          h = q * of_nat (length s - 1);
          lo = nat \<lfloor>h\<rfloor>;
          hi = min (lo + 1) (length s - 1)
      in s ! lo + (s ! hi - s ! lo) * (h - of_nat lo))"

definition numeric :: "rat option list \<Rightarrow> rat list" where
  "numeric cells = List.map_filter (\<lambda>c. c) cells"

definition calculate_utilization_stats :: "rat option list \<Rightarrow> stats" where
  "calculate_utilization_stats column =
     (let values = numeric column in
      if values = [] then
        \<lparr>avg = 0, max_val = 0, min_val = 0, p95 = 0, p90 = 0, low_usage_days = 0,
         high_usage_days = None, total_days = None,
         low_usage_percentage = None, high_usage_percentage = None\<rparr>
      else
        (let low = length (filter (\<lambda>v. v < 20) values);
             high = length (filter (\<lambda>v. v > 80) values);
             total = length values
         in \<lparr>avg = py_round (mean values) 2,
             max_val = py_round (fold max (tl values) (hd values)) 2,
             min_val = py_round (fold min (tl values) (hd values)) 2,
             p95 = py_round (quantile values 0.95) 2,
             p90 = py_round (quantile values 0.90) 2,
             low_usage_days = low,
             high_usage_days = Some high,
             total_days = Some total,
             low_usage_percentage = Some (py_round (of_nat low / of_nat total * 100) 1),
             high_usage_percentage = Some (py_round (of_nat high / of_nat total * 100) 1)\<rparr>))"

subsection \<open>The static tables\<close>

definition ec2_downsize_map :: "(string \<times> string) list" where
  "ec2_downsize_map =
    [(''t3a.large'', ''t3a.medium''), (''t3a.medium'', ''t3a.small''),
     (''t3a.small'', ''t3a.micro''), (''t3a.xlarge'', ''t3a.large''),
     (''t3a.2xlarge'', ''t3a.xlarge''), (''t3.large'', ''t3.medium''),
     (''t3.medium'', ''t3.small''), (''t3.small'', ''t3.micro''),
     (''t3.xlarge'', ''t3.large''), (''t3.2xlarge'', ''t3.xlarge''),
     (''m5.large'', ''t3a.large''), (''m5.xlarge'', ''m5.large''),
     (''m5.2xlarge'', ''m5.xlarge''), (''m5.4xlarge'', ''m5.2xlarge''),
     (''c5.large'', ''t3a.medium''), (''c5.xlarge'', ''c5.large''),
     (''c5.2xlarge'', ''c5.xlarge''), (''r5.large'', ''m5.large''),
     (''r5.xlarge'', ''r5.large''), (''r5.2xlarge'', ''r5.xlarge'')]"

definition rds_downsize_map :: "(string \<times> string) list" where
  "rds_downsize_map =
    [(''db.t4g.medium'', ''db.t4g.small''), (''db.t4g.large'', ''db.t4g.medium''),
     (''db.t4g.xlarge'', ''db.t4g.large''), (''db.t4g.2xlarge'', ''db.t4g.xlarge''),
     (''db.t3.medium'', ''db.t3.small''), (''db.t3.large'', ''db.t3.medium''),
     (''db.t3.xlarge'', ''db.t3.large''), (''db.t3.2xlarge'', ''db.t3.xlarge''),
     (''db.m5.large'', ''db.t4g.large''), (''db.m5.xlarge'', ''db.m5.large''),
     (''db.m5.2xlarge'', ''db.m5.xlarge''), (''db.r5.large'', ''db.m5.large''),
     (''db.r5.xlarge'', ''db.r5.large''), (''db.r5.2xlarge'', ''db.r5.xlarge'')]"

definition ec2_upsize_map :: "(string \<times> string) list" where
  "ec2_upsize_map =
    [(''t3a.micro'', ''t3a.small''), (''t3a.small'', ''t3a.medium''),
     (''t3a.medium'', ''t3a.large''), (''t3a.large'', ''t3a.xlarge''),
     (''t3a.xlarge'', ''t3a.2xlarge''), (''t3.micro'', ''t3.small''),
     (''t3.small'', ''t3.medium''), (''t3.medium'', ''t3.large''),
     (''t3.large'', ''t3.xlarge''), (''t3.xlarge'', ''t3.2xlarge''),
     (''t3a.2xlarge'', ''m5.xlarge''), (''t3.2xlarge'', ''m5.xlarge''),
     (''m5.large'', ''m5.xlarge''), (''m5.xlarge'', ''m5.2xlarge''),
     (''m5.2xlarge'', ''m5.4xlarge''), (''c5.large'', ''c5.xlarge''),
     (''c5.xlarge'', ''c5.2xlarge'')]"

definition rds_upsize_map :: "(string \<times> string) list" where
  "rds_upsize_map =
    [(''db.t4g.micro'', ''db.t4g.small''), (''db.t4g.small'', ''db.t4g.medium''),
     (''db.t4g.medium'', ''db.t4g.large''), (''db.t4g.large'', ''db.t4g.xlarge''),
     (''db.t4g.xlarge'', ''db.t4g.2xlarge''), (''db.t3.micro'', ''db.t3.small''),
     (''db.t3.small'', ''db.t3.medium''), (''db.t3.medium'', ''db.t3.large''),
     (''db.t3.large'', ''db.t3.xlarge''), (''db.t4g.2xlarge'', ''db.m5.large''),
     (''db.t3.2xlarge'', ''db.m5.large''), (''db.m5.large'', ''db.m5.xlarge''),
     (''db.m5.xlarge'', ''db.m5.2xlarge'')]"

definition ec2_memory_optimized_map :: "(string \<times> string) list" where
  "ec2_memory_optimized_map =
    [(''t3.medium'', ''r5.large''), (''t3.large'', ''r5.large''),
     (''t3.xlarge'', ''r5.xlarge''), (''t3a.medium'', ''r5.large''),
     (''t3a.large'', ''r5.large''), (''t3a.xlarge'', ''r5.xlarge''),
     (''m5.large'', ''r5.large''), (''m5.xlarge'', ''r5.xlarge''),
     (''m5.2xlarge'', ''r5.2xlarge''), (''c5.large'', ''r5.large''),
     (''c5.xlarge'', ''r5.xlarge'')]"

definition rds_memory_optimized_map :: "(string \<times> string) list" where
  "rds_memory_optimized_map =
    [(''db.t4g.medium'', ''db.r5.large''), (''db.t4g.large'', ''db.r5.large''),
     (''db.t3.medium'', ''db.r5.large''), (''db.t3.large'', ''db.r5.large''),
     (''db.m5.large'', ''db.r5.large''), (''db.m5.xlarge'', ''db.r5.xlarge'')]"

definition ec2_costs :: "(string \<times> rat) list" where
  "ec2_costs =
    [(''t3.nano'', 3.80), (''t3.micro'', 7.66), (''t3.small'', 15.33),
     (''t3.medium'', 30.66), (''t3.large'', 61.32), (''t3.xlarge'', 122.63),
     (''t3.2xlarge'', 245.26), (''t3a.nano'', 3.28), (''t3a.micro'', 6.57),
     (''t3a.small'', 13.14), (''t3a.medium'', 26.28), (''t3a.large'', 52.56),
     (''t3a.xlarge'', 105.12), (''t3a.2xlarge'', 210.24), (''m5.large'', 70.08),
     (''m5.xlarge'', 140.16), (''m5.2xlarge'', 280.32), (''m5.4xlarge'', 560.64),
     (''c5.large'', 62.05), (''c5.xlarge'', 124.10), (''c5.2xlarge'', 248.20),
     (''r5.large'', 91.25), (''r5.xlarge'', 182.50), (''r5.2xlarge'', 365.00),
     (''r5.4xlarge'', 730.00)]"

definition rds_costs :: "(string \<times> rat) list" where
  "rds_costs =
    [(''db.t2.micro'', 11.68), (''db.t2.small'', 23.36), (''db.t2.medium'', 46.72),
     (''db.t2.large'', 93.44), (''db.t3.micro'', 12.41), (''db.t3.small'', 24.82),
     (''db.t3.medium'', 49.64), (''db.t3.large'', 99.28), (''db.t3.xlarge'', 198.56),
     (''db.t3.2xlarge'', 397.12), (''db.t4g.micro'', 10.22), (''db.t4g.small'', 20.44),
     (''db.t4g.medium'', 40.88), (''db.t4g.large'', 81.76),
     (''db.t4g.xlarge'', 163.52), (''db.t4g.2xlarge'', 327.04),
     (''db.m5.large'', 105.12), (''db.m5.xlarge'', 210.24),
     (''db.m5.2xlarge'', 420.48), (''db.r5.large'', 136.87),
     (''db.r5.xlarge'', 273.75), (''db.r5.2xlarge'', 547.50)]"

definition table_for :: "string \<Rightarrow> 'a \<Rightarrow> 'a \<Rightarrow> 'a" where
  "table_for service ec2 rds = (if service = ''EC2'' then ec2 else rds)"

definition get_smaller_instance_type :: "string \<Rightarrow> string \<Rightarrow> string" where
  "get_smaller_instance_type current_type service =
     (case map_of (table_for service ec2_downsize_map rds_downsize_map) current_type of
        None \<Rightarrow> current_type | Some t \<Rightarrow> t)"

definition get_larger_instance_type :: "string \<Rightarrow> string \<Rightarrow> string" where
  "get_larger_instance_type current_type service =
     (case map_of (table_for service ec2_upsize_map rds_upsize_map) current_type of
        None \<Rightarrow> current_type | Some t \<Rightarrow> t)"

definition get_memory_optimized_type :: "string \<Rightarrow> string \<Rightarrow> string" where
  "get_memory_optimized_type current_type service =
     (case map_of (table_for service ec2_memory_optimized_map rds_memory_optimized_map)
             current_type of
        None \<Rightarrow> current_type | Some t \<Rightarrow> t)"

definition get_instance_monthly_cost :: "string \<Rightarrow> string \<Rightarrow> rat" where
  "get_instance_monthly_cost instance_type service =
     (if service = ''EC2'' then
        (case map_of ec2_costs instance_type of None \<Rightarrow> 50.0 | Some c \<Rightarrow> c)
      else
        (case map_of rds_costs instance_type of None \<Rightarrow> 75.0 | Some c \<Rightarrow> c))"

definition estimate_cost_savings :: "string \<Rightarrow> string \<Rightarrow> string \<Rightarrow> rat" where
  "estimate_cost_savings current_type recommended_type service =
     max 0 (get_instance_monthly_cost current_type service
            - get_instance_monthly_cost recommended_type service)"

definition estimate_cost_increase :: "string \<Rightarrow> string \<Rightarrow> string \<Rightarrow> rat" where
  "estimate_cost_increase current_type recommended_type service =
     max 0 (get_instance_monthly_cost recommended_type service
            - get_instance_monthly_cost current_type service)"

subsection \<open>Recommendations\<close>

datatype action = Monitor | Downsize | Upsize | Optimize_memory | Increase_storage

datatype level = Low | Medium | High

text \<open>
  The reason is a formatted sentence in the source; here it is the sentence's template
  together with the numbers it prints.
\<close>

datatype reason =
    Usage_within_normal_range
  | Consistently_low_utilization rat rat
  | High_CPU_utilization rat rat
  | High_RAM_utilization rat rat
  | High_disk_utilization rat

datatype error = KeyError string

record recommendation =
  instance_id :: string
  name :: string
  service :: string
  current_type :: string
  data_points :: nat
  cpu_stats :: stats
  ram_stats :: stats
  disk_stats :: "stats option"
  action :: action
  reason :: reason
  confidence :: level
  priority :: level
  estimated_monthly_savings :: rat
  estimated_monthly_cost_increase :: rat
  recommended_type :: string

text \<open>
  The three guards that read a key which may be missing. \<^verbatim>\<open>and\<close> evaluates left
  to right and stops at the first false operand, so the key is read only when the
  comparisons before it hold; reading a missing key raises \<^verbatim>\<open>KeyError\<close>.
\<close>

definition downsize_condition :: "stats \<Rightarrow> stats \<Rightarrow> error + bool" where
  "downsize_condition cpu ram =
     (if avg cpu < 15 \<and> p95 cpu < 30 \<and> avg ram < 25 \<and> p95 ram < 50 then
        (case low_usage_percentage cpu of
           None \<Rightarrow> Inl (KeyError ''low_usage_percentage'')
         | Some lp \<Rightarrow> Inr (lp > 70))
      else Inr False)"

definition upsize_condition :: "stats \<Rightarrow> error + bool" where
  "upsize_condition cpu =
     (if avg cpu > 75 \<and> p95 cpu > 90 then
        (case high_usage_percentage cpu of
           None \<Rightarrow> Inl (KeyError ''high_usage_percentage'')
         | Some hp \<Rightarrow> Inr (hp > 30))
      else Inr False)"

definition memory_condition :: "stats \<Rightarrow> error + bool" where
  "memory_condition ram =
     (if avg ram > 85 \<and> p95 ram > 95 then
        (case high_usage_percentage ram of
           None \<Rightarrow> Inl (KeyError ''high_usage_percentage'')
         | Some hp \<Rightarrow> Inr (hp > 25))
      else Inr False)"

definition storage_condition :: "stats option \<Rightarrow> bool" where
  "storage_condition disk =
     (case disk of None \<Rightarrow> False | Some d \<Rightarrow> avg d > 85 \<and> p95 d > 95)"

definition generate_instance_recommendation ::
  "string \<Rightarrow> string \<Rightarrow> string \<Rightarrow> string \<Rightarrow> stats \<Rightarrow> stats \<Rightarrow> stats option \<Rightarrow> nat
     \<Rightarrow> error + recommendation" where
  "generate_instance_recommendation iid nm svc instance_type cpu ram disk points =
     (let recommendation =
        \<lparr>instance_id = iid, name = nm, service = svc, current_type = instance_type,
         data_points = points, cpu_stats = cpu, ram_stats = ram, disk_stats = disk,
         action = Monitor, reason = Usage_within_normal_range,
         confidence = Medium, priority = Low,
         estimated_monthly_savings = 0, estimated_monthly_cost_increase = 0,
         recommended_type = instance_type\<rparr>
      in
      case downsize_condition cpu ram of
        Inl e \<Rightarrow> Inl e
      | Inr True \<Rightarrow>
          (let rt = get_smaller_instance_type instance_type svc in
           if rt \<noteq> instance_type then
             (let savings = estimate_cost_savings instance_type rt svc in
              Inr (recommendation\<lparr>action := Downsize, recommended_type := rt,
                     reason := Consistently_low_utilization (avg cpu) (avg ram),
                     confidence := High,
                     priority := (if savings > 100 then High else Medium),
                     estimated_monthly_savings := savings\<rparr>))
           else Inr recommendation)
      | Inr False \<Rightarrow>
      (case upsize_condition cpu of
        Inl e \<Rightarrow> Inl e
      | Inr True \<Rightarrow>
          (let rt = get_larger_instance_type instance_type svc in
           if rt \<noteq> instance_type then
             (let cost_increase = estimate_cost_increase instance_type rt svc in
              Inr (recommendation\<lparr>action := Upsize, recommended_type := rt,
                     reason := High_CPU_utilization (avg cpu) (p95 cpu),
                     confidence := High, priority := High,
                     estimated_monthly_cost_increase := cost_increase\<rparr>))
           else Inr recommendation)
      | Inr False \<Rightarrow>
      (case memory_condition ram of
        Inl e \<Rightarrow> Inl e
      | Inr True \<Rightarrow>
          (let rt = get_memory_optimized_type instance_type svc in
           if rt \<noteq> instance_type then
             (let cost_increase = estimate_cost_increase instance_type rt svc in
              Inr (recommendation\<lparr>action := Optimize_memory, recommended_type := rt,
                     reason := High_RAM_utilization (avg ram) (p95 ram),
                     confidence := Medium, priority := Medium,
                     estimated_monthly_cost_increase := cost_increase\<rparr>))
           else Inr recommendation)
      | Inr False \<Rightarrow>
          if storage_condition disk then
            Inr (recommendation\<lparr>action := Increase_storage,
                   reason := High_disk_utilization (avg (the disk)),
                   confidence := Medium, priority := Medium\<rparr>)
          else Inr recommendation)))"

subsection \<open>The monthly summary\<close>

text \<open>
  \<^verbatim>\<open>action_counts\<close>, a dictionary in insertion order. The summary's two totals have
  the keys \<^verbatim>\<open>estimated_monthly_savings\<close> and \<^verbatim>\<open>estimated_monthly_cost_increase\<close>
  in the source; they are prefixed here, the names being taken by the recommendation.
  A mean over a column without a number is \<^verbatim>\<open>NaN\<close>, here \<open>None\<close>; the four
  averages are absent (outer \<open>None\<close>) when the service has no row.
\<close>

fun count_action :: "(action \<times> nat) list \<Rightarrow> action \<Rightarrow> (action \<times> nat) list" where
  "count_action [] a = [(a, 1)]"
| "count_action ((b, n) # r) a =
     (if a = b then (b, n + 1) # r else (b, n) # count_action r a)"

text \<open>\<^verbatim>\<open>Series.unique()\<close>: the distinct values in order of first appearance.\<close>

fun unique :: "'a list \<Rightarrow> 'a list" where
  "unique [] = []"
| "unique (x # xs) = x # unique (filter (\<lambda>y. y \<noteq> x) xs)"

definition column_mean :: "rat option list \<Rightarrow> rat option" where
  "column_mean cells =
     (if numeric cells = [] then None else Some (py_round (mean (numeric cells)) 2))"

record monthly_summary =
  total_recommendations :: nat
  action_breakdown :: "(action \<times> nat) list"
  total_estimated_monthly_savings :: rat
  total_estimated_monthly_cost_increase :: rat
  net_impact :: rat
  high_priority_count :: nat
  ec2_instances_analyzed :: nat
  rds_instances_analyzed :: nat
  avg_ec2_cpu :: "rat option option"
  avg_ec2_ram :: "rat option option"
  avg_rds_cpu :: "rat option option"
  avg_rds_ram :: "rat option option"

definition generate_monthly_summary :: "row list \<Rightarrow> recommendation list \<Rightarrow> monthly_summary" where
  "generate_monthly_summary data recs =
     (let action_counts = fold (\<lambda>r counts. count_action counts (action r)) recs [];
          total_savings = sum_list (map estimated_monthly_savings recs);
          total_cost_increase = sum_list (map estimated_monthly_cost_increase recs);
          ec2_data = filter (\<lambda>r. Service r = ''EC2'') data;
          rds_data = filter (\<lambda>r. Service r = ''RDS'') data
      in \<lparr>total_recommendations = length (filter (\<lambda>r. action r \<noteq> Monitor) recs),
          action_breakdown = action_counts,
          total_estimated_monthly_savings = py_round total_savings 2,
          total_estimated_monthly_cost_increase = py_round total_cost_increase 2,
          net_impact = py_round (total_savings - total_cost_increase) 2,
          high_priority_count = length (filter (\<lambda>r. priority r = High) recs),
          ec2_instances_analyzed = length (unique (map ID ec2_data)),
          rds_instances_analyzed = length (unique (map ID rds_data)),
          avg_ec2_cpu = (if ec2_data = [] then None
                         else Some (column_mean (map CPUUtilization ec2_data))),
          avg_ec2_ram = (if ec2_data = [] then None
                         else Some (column_mean (map RAMUtilization ec2_data))),
          avg_rds_cpu = (if rds_data = [] then None
                         else Some (column_mean (map CPUUtilization rds_data))),
          avg_rds_ram = (if rds_data = [] then None
                         else Some (column_mean (map RAMUtilization rds_data)))\<rparr>)"

subsection \<open>The monthly analysis\<close>

record analysis_summary =
  total_instances :: nat
  analysis_period_days :: nat
  data_points_total :: nat

record analysis_result =
  recommendations :: "recommendation list"
  analysis :: "monthly_summary option"
  summary :: "analysis_summary option"

definition empty_result :: analysis_result where
  "empty_result = \<lparr>recommendations = [], analysis = None, summary = None\<rparr>"

text \<open>
  \<^verbatim>\<open>datetime.now() - timedelta(days=30)\<close>, the clock reading \<open>now\<close> being an input
  of the model. A row without a date is never inside the window.
\<close>

definition cutoff_date :: "int \<Rightarrow> int" where
  "cutoff_date now = now - 30 * 86400 * 1000000"

definition in_window :: "int \<Rightarrow> row \<Rightarrow> bool" where
  "in_window now r = (case Date r of None \<Rightarrow> False | Some d \<Rightarrow> d \<ge> cutoff_date now)"

definition date_key :: "row \<Rightarrow> int" where
  "date_key r = (case Date r of None \<Rightarrow> 0 | Some d \<Rightarrow> d)"

definition disk_stats_of :: "row list \<Rightarrow> stats option" where
  "disk_stats_of instance_data =
     (if numeric (map DiskUsage instance_data) = [] then None
      else Some (calculate_utilization_stats (map DiskUsage instance_data)))"

text \<open>
  The body of the loop over the instance ids: \<open>Inr None\<close> is \<^verbatim>\<open>continue\<close>. The
  latest record is the last row after a sort by date; rows of one instance with equal
  dates are taken in table order.
\<close>

definition analyze_instance :: "row list \<Rightarrow> string \<Rightarrow> error + recommendation option" where
  "analyze_instance recent_data iid =
     (let instance_data = filter (\<lambda>r. ID r = iid) recent_data in
      if length instance_data < 7 then Inr None
      else
        (let latest_record = last (sort_key date_key instance_data);
             cpu = calculate_utilization_stats (map CPUUtilization instance_data);
             ram = calculate_utilization_stats (map RAMUtilization instance_data);
             disk = disk_stats_of instance_data
         in case generate_instance_recommendation iid (Name_Tag latest_record)
                   (Service latest_record) (Type latest_record) cpu ram disk
                   (length instance_data) of
              Inl e \<Rightarrow> Inl e
            | Inr r \<Rightarrow> Inr (Some r)))"

fun analyze_instances :: "row list \<Rightarrow> string list \<Rightarrow> error + recommendation list" where
  "analyze_instances recent_data [] = Inr []"
| "analyze_instances recent_data (i # ids) =
     (case analyze_instance recent_data i of
        Inl e \<Rightarrow> Inl e
      | Inr None \<Rightarrow> analyze_instances recent_data ids
      | Inr (Some r) \<Rightarrow>
          (case analyze_instances recent_data ids of
             Inl e \<Rightarrow> Inl e
           | Inr rs \<Rightarrow> Inr (r # rs)))"

definition analyze_monthly_trends :: "int \<Rightarrow> row list \<Rightarrow> error + analysis_result" where
  "analyze_monthly_trends now historical =
     (if historical = [] then Inr empty_result
      else
        (let recent_data = filter (in_window now) historical in
         if recent_data = [] then Inr empty_result
         else
           (case analyze_instances recent_data (unique (map ID recent_data)) of
              Inl e \<Rightarrow> Inl e
            | Inr recs \<Rightarrow>
                Inr \<lparr>recommendations = recs,
                     analysis = Some (generate_monthly_summary recent_data recs),
                     summary = Some
                       \<lparr>total_instances = length (unique (map ID recent_data)),
                        analysis_period_days = length (unique (map Date recent_data)),
                        data_points_total = length recent_data\<rparr>\<rparr>)))"

subsection \<open>Sample histories\<close>

text \<open>
  Daily samples of one instance: sample \<open>k\<close> of the list is dated day \<open>k\<close>, with
  the given CPU and RAM cells and no disk cell.
\<close>

definition day :: "int \<Rightarrow> int" where
  "day k = k * 86400 * 1000000"

definition daily :: "string \<Rightarrow> string \<Rightarrow> string \<Rightarrow> (rat option \<times> rat option \<times> rat option) list \<Rightarrow> row list" where
  "daily iid svc ty cells =
     map (\<lambda>(k, (c, r, d)). \<lparr>Date = Some (day (int k)), ID = iid, Service = svc, Type = ty,
                            Name_Tag = ''web'', CPUUtilization = c, RAMUtilization = r,
                            DiskUsage = d\<rparr>)
         (enumerate 0 cells)"


definition low_history :: "rat \<Rightarrow> string \<Rightarrow> row list" where
  "low_history peak ty =
     daily ''i-1'' ''EC2'' ty (map (\<lambda>c. (Some c, Some 10, None)) [2, 2, 2, 2, 2, 2, peak])"

definition busy_history :: "string \<Rightarrow> row list" where
  "busy_history ty = daily ''i-1'' ''EC2'' ty (replicate 7 (Some 95, Some 10, None))"

definition blank_history :: "row list" where
  "blank_history = daily ''i-1'' ''EC2'' ''t3a.large'' (replicate 7 (None, None, None))"

text \<open>The recommendations of a run, none when the run raised.\<close>

definition recommendations_of :: "error + analysis_result \<Rightarrow> recommendation list" where
  "recommendations_of res = (case res of Inl e \<Rightarrow> [] | Inr out \<Rightarrow> recommendations out)"

subsection \<open>Notation for the statements\<close>

abbreviation recent_data :: "int \<Rightarrow> row list \<Rightarrow> row list" where
  "recent_data now historical \<equiv> filter (in_window now) historical"

abbreviation instance_data :: "row list \<Rightarrow> string \<Rightarrow> row list" where
  "instance_data recent iid \<equiv> filter (\<lambda>r. ID r = iid) recent"

abbreviation cpu_of :: "row list \<Rightarrow> string \<Rightarrow> stats" where
  "cpu_of recent iid \<equiv> calculate_utilization_stats (map CPUUtilization (instance_data recent iid))"

abbreviation ram_of :: "row list \<Rightarrow> string \<Rightarrow> stats" where
  "ram_of recent iid \<equiv> calculate_utilization_stats (map RAMUtilization (instance_data recent iid))"

abbreviation latest_of :: "row list \<Rightarrow> string \<Rightarrow> row" where
  "latest_of recent iid \<equiv> last (sort_key date_key (instance_data recent iid))"

section \<open>Properties of the extractor\<close>



lemma parse_efs_disk_usage_avg: "disk_usage_avg (parse_efs lines m) = disk_usage_avg m"
  by (simp add: parse_efs_def Let_def split: list.splits)



lemma parse_memory_disk_usage_avg: "disk_usage_avg (parse_memory lines m) = disk_usage_avg m"
  by (simp add: parse_memory_def split: list.splits option.splits)




lemma disk_usage_avg_lines:
  "disk_usage_avg (get_fixed_ssm_metrics_lines lines) =
     disk_usage_avg (parse_avg_disk lines (map snd (parse_disks lines)) initial_metrics)"
  by (simp add: get_fixed_ssm_metrics_lines_def Let_def parse_efs_disk_usage_avg
      parse_avg_disk_def parse_memory_disk_usage_avg split: option.splits)

lemma parse_disks_short: "length lines \<le> 2 \<Longrightarrow> parse_disks lines = []"
  by (simp add: parse_disks_def disk_lines_def end_index_def List.map_filter_simps)

lemma disk_usage_avg_short:
  "length lines \<le> 2 \<Longrightarrow> disk_usage_avg (get_fixed_ssm_metrics_lines lines) = 0"
  by (simp add: disk_usage_avg_lines parse_disks_short parse_avg_disk_def initial_metrics_def)

lemma disk_usage_avg_long:
  "length lines > 2 \<Longrightarrow> disk_usage_avg (get_fixed_ssm_metrics_lines lines) =
     (case py_float (avg_disk_line lines) of
        None \<Rightarrow> if parse_disks lines = [] then 0 else mean (map snd (parse_disks lines))
      | Some v \<Rightarrow> if pct_ok v then fin_val v else 0)"
  by (simp add: disk_usage_avg_lines parse_avg_disk_def initial_metrics_def split: option.splits)

text \<open>
  C3. The four lines \<^verbatim>\<open>42.50\<close>, \<^verbatim>\<open>/dev/sda1:55%\<close>, \<^verbatim>\<open>30.00\<close>, \<^verbatim>\<open>NO_EFS\<close>
  give memory 42.5, the single pair (/dev/sda1, 55), average disk usage 30, no network
  filesystem, and success.
\<close>

theorem extract_example:
  "get_fixed_ssm_metrics_lines [''42.50'', ''/dev/sda1:55%'', ''30.00'', ''NO_EFS'']
  = \<lparr>memory_percent = 85/2, disk_usage_avg = 30, disk_details = [(''/dev/sda1'', 55)],
     collection_method = ''ssm_fixed'', success = True, efs_attached = False,
     efs_details = None\<rparr>"
  by code_simp

text \<open>
  C4, as stated, fails: with exactly two lines, both of them percentages in range, the
  last line is not reported as the average disk usage.
\<close>

theorem two_lines_avg_counterexample:
  "py_float ''42.50'' = Some (Fin (85 / 2)) \<and> py_float ''30.00'' = Some (Fin 30) \<and>
   disk_usage_avg (get_fixed_ssm_metrics_lines [''42.50'', ''30.00'']) \<noteq> 30"
  by code_simp

text \<open>
  C4, amended. With exactly two lines the average disk usage is reported as 0 whatever
  the last line holds; with exactly three lines whose last line parses as a float in
  [0,100], that value is the reported average disk usage.
\<close>

theorem avg_disk_two_or_three_lines:
  "(length lines = 2 \<longrightarrow> disk_usage_avg (get_fixed_ssm_metrics_lines lines) = 0) \<and>
   (length lines = 3 \<and> py_float (last lines) = Some (Fin v) \<and> 0 \<le> v \<and> v \<le> 100 \<longrightarrow>
      disk_usage_avg (get_fixed_ssm_metrics_lines lines) = v)"
  by (simp add: disk_usage_avg_short disk_usage_avg_long avg_disk_line_def)

theorem avg_disk_two_or_three_lines_witness:
  "disk_usage_avg (get_fixed_ssm_metrics_lines [''42.50'', ''77'']) = 0 \<and>
   disk_usage_avg (get_fixed_ssm_metrics_lines [''42.50'', ''/dev/sda1:55%'', ''30.00'']) = 30"
proof -
  have p: "py_float ''30.00'' = Some (Fin 30)" by code_simp
  from avg_disk_two_or_three_lines [of "[''42.50'', ''77'']" 0]
  have a: "disk_usage_avg (get_fixed_ssm_metrics_lines [''42.50'', ''77'']) = 0" by simp
  from avg_disk_two_or_three_lines [of "[''42.50'', ''/dev/sda1:55%'', ''30.00'']" 30] p
  have b: "disk_usage_avg (get_fixed_ssm_metrics_lines [''42.50'', ''/dev/sda1:55%'', ''30.00'']) = 30"
    by simp
  from a b show ?thesis by simp
qed

text \<open>
  C5. With more than two lines the reported average is the mean of the parsed pairs
  exactly when the average-disk line fails to parse and some pair parsed; when the line
  parses, the average is its value if that lies in [0,100] and 0 otherwise. With at most
  two lines the average is 0. In particular, with more than three lines, a parseable but
  out-of-range second-to-last line and at least one parsed pair, the average is 0.
\<close>

theorem avg_disk_fallback_only_on_parse_failure:
  "(length lines > 2 \<longrightarrow>
      disk_usage_avg (get_fixed_ssm_metrics_lines lines) =
        (case py_float (avg_disk_line lines) of
           None \<Rightarrow> if parse_disks lines = [] then 0 else mean (map snd (parse_disks lines))
         | Some v \<Rightarrow> if pct_ok v then fin_val v else 0)) \<and>
   (length lines \<le> 2 \<longrightarrow> disk_usage_avg (get_fixed_ssm_metrics_lines lines) = 0) \<and>
   (length lines > 3 \<and> py_float (lines ! (length lines - 2)) = Some x \<and> \<not> pct_ok x \<and>
    disk_details (get_fixed_ssm_metrics_lines lines) \<noteq> [] \<longrightarrow>
      disk_usage_avg (get_fixed_ssm_metrics_lines lines) = 0)"
  by (simp add: disk_usage_avg_short disk_usage_avg_long avg_disk_line_def)

theorem avg_disk_fallback_only_on_parse_failure_witness:
  "disk_usage_avg (get_fixed_ssm_metrics_lines
     [''42.50'', ''/dev/sda1:55%'', ''/dev/sda2:5%'', ''150'', ''NO_EFS'']) = 0 \<and>
   disk_details (get_fixed_ssm_metrics_lines
     [''42.50'', ''/dev/sda1:55%'', ''/dev/sda2:5%'', ''150'', ''NO_EFS''])
     = [(''/dev/sda1'', 55), (''/dev/sda2'', 5)] \<and>
   disk_usage_avg (get_fixed_ssm_metrics_lines
     [''42.50'', ''/dev/sda1:55%'', ''/dev/sda2:5%'', ''n/a'', ''NO_EFS'']) = 30"
proof -
  let ?a = "[''42.50'', ''/dev/sda1:55%'', ''/dev/sda2:5%'', ''150'', ''NO_EFS'']"
  let ?b = "[''42.50'', ''/dev/sda1:55%'', ''/dev/sda2:5%'', ''n/a'', ''NO_EFS'']"
  have p: "py_float ''150'' = Some (Fin 150)" by code_simp
  have q: "py_float ''n/a'' = None" by code_simp
  have d: "disk_details (get_fixed_ssm_metrics_lines ?a) = [(''/dev/sda1'', 55), (''/dev/sda2'', 5)]"
    by code_simp
  have e: "parse_disks ?b = [(''/dev/sda1'', 55), (''/dev/sda2'', 5)]"
    by code_simp
  from avg_disk_fallback_only_on_parse_failure [of ?a "Fin 150"] p d
  have a: "disk_usage_avg (get_fixed_ssm_metrics_lines ?a) = 0" by simp
  from avg_disk_fallback_only_on_parse_failure [of ?b] q e
  have b: "disk_usage_avg (get_fixed_ssm_metrics_lines ?b) = 30"
    by (simp add: avg_disk_line_def mean_def)
  from a b d show ?thesis by simp
qed



section \<open>Properties of the analyzer\<close>

lemma set_unique: "set (unique xs) = set xs"
  by (induction xs rule: unique.induct) auto

lemma distinct_unique: "distinct (unique xs)"
  by (induction xs rule: unique.induct) (auto simp: set_unique)

lemma stats_reduced:
  "numeric column = [] \<Longrightarrow> calculate_utilization_stats column =
     \<lparr>avg = 0, max_val = 0, min_val = 0, p95 = 0, p90 = 0, low_usage_days = 0,
      high_usage_days = None, total_days = None,
      low_usage_percentage = None, high_usage_percentage = None\<rparr>"
  by (simp add: calculate_utilization_stats_def)

lemma stats_full_low:
  "numeric column \<noteq> [] \<Longrightarrow> \<exists>lp. low_usage_percentage (calculate_utilization_stats column) = Some lp"
  by (simp add: calculate_utilization_stats_def Let_def)

lemma stats_full_high:
  "numeric column \<noteq> [] \<Longrightarrow> \<exists>hp. high_usage_percentage (calculate_utilization_stats column) = Some hp"
  by (simp add: calculate_utilization_stats_def Let_def)

lemma upsize_condition_total:
  "\<exists>b. upsize_condition (calculate_utilization_stats column) = Inr b"
proof (cases "numeric column = []")
  case True
  then show ?thesis by (auto simp: upsize_condition_def stats_reduced)
next
  case False
  from stats_full_high [OF False] show ?thesis
    by (auto simp: upsize_condition_def)
qed

lemma memory_condition_total:
  "\<exists>b. memory_condition (calculate_utilization_stats column) = Inr b"
proof (cases "numeric column = []")
  case True
  then show ?thesis by (auto simp: memory_condition_def stats_reduced)
next
  case False
  from stats_full_high [OF False] show ?thesis
    by (auto simp: memory_condition_def)
qed

lemma downsize_condition_error:
  "downsize_condition (calculate_utilization_stats c) ram = Inl e \<longleftrightarrow>
     numeric c = [] \<and> avg ram < 25 \<and> p95 ram < 50 \<and> e = KeyError ''low_usage_percentage''"
proof (cases "numeric c = []")
  case True
  then show ?thesis by (auto simp: downsize_condition_def stats_reduced)
next
  case False
  from stats_full_low [OF False] False show ?thesis
    by (auto simp: downsize_condition_def)
qed

lemma generate_error:
  "generate_instance_recommendation iid nm svc ty cpu ram disk n = Inl e \<longleftrightarrow>
     downsize_condition cpu ram = Inl e \<or>
     downsize_condition cpu ram = Inr False \<and>
       (upsize_condition cpu = Inl e \<or>
        upsize_condition cpu = Inr False \<and> memory_condition ram = Inl e)"
  by (simp add: generate_instance_recommendation_def Let_def split: sum.splits bool.splits)

lemma analyze_instance_error:
  "analyze_instance recent iid = Inl e \<longleftrightarrow>
     7 \<le> length (filter (\<lambda>r. ID r = iid) recent) \<and>
     numeric (map CPUUtilization (filter (\<lambda>r. ID r = iid) recent)) = [] \<and>
     avg (calculate_utilization_stats (map RAMUtilization (filter (\<lambda>r. ID r = iid) recent))) < 25 \<and>
     p95 (calculate_utilization_stats (map RAMUtilization (filter (\<lambda>r. ID r = iid) recent))) < 50 \<and>
     e = KeyError ''low_usage_percentage''"
proof -
  let ?rows = "filter (\<lambda>r. ID r = iid) recent"
  let ?cpu = "calculate_utilization_stats (map CPUUtilization ?rows)"
  let ?ram = "calculate_utilization_stats (map RAMUtilization ?rows)"
  obtain b where b: "upsize_condition ?cpu = Inr b"
    using upsize_condition_total by blast
  obtain c where c: "memory_condition ?ram = Inr c"
    using memory_condition_total by blast
  have gen: "generate_instance_recommendation iid nm svc ty ?cpu ?ram disk n = Inl e \<longleftrightarrow>
      downsize_condition ?cpu ?ram = Inl e" for nm svc ty disk n
    by (simp add: generate_error b c)
  show ?thesis
  proof (cases "length ?rows < 7")
    case True
    then show ?thesis by (simp add: analyze_instance_def)
  next
    case False
    have lift: "(case x of Inl e' \<Rightarrow> Inl e' | Inr r \<Rightarrow> Inr (Some r)) = Inl e \<longleftrightarrow> x = Inl e"
      for x :: "error + recommendation"
      by (cases x) auto
    from False
    have "analyze_instance recent iid = Inl e \<longleftrightarrow> downsize_condition ?cpu ?ram = Inl e"
      by (simp add: analyze_instance_def Let_def lift gen)
    with False show ?thesis
      by (simp add: downsize_condition_error)
  qed
qed

lemma analyze_instance_few:
  "length (filter (\<lambda>r. ID r = iid) recent) < 7 \<Longrightarrow> analyze_instance recent iid = Inr None"
  by (simp add: analyze_instance_def)

lemma analyze_instance_some:
  "analyze_instance recent iid = Inr (Some r) \<Longrightarrow>
     7 \<le> length (filter (\<lambda>r. ID r = iid) recent) \<and> instance_id r = iid"
  by (auto simp: analyze_instance_def Let_def generate_instance_recommendation_def
      split: if_splits sum.splits bool.splits)

lemma analyze_instance_none:
  "analyze_instance recent iid = Inr None \<Longrightarrow> length (filter (\<lambda>r. ID r = iid) recent) < 7"
  by (auto simp: analyze_instance_def Let_def split: if_splits sum.splits)

lemma analyze_instances_error:
  "(\<exists>e. analyze_instances recent ids = Inl e) \<longleftrightarrow>
     (\<exists>i \<in> set ids. \<exists>e. analyze_instance recent i = Inl e)"
proof (induction ids)
  case Nil
  show ?case by simp
next
  case (Cons i ids)
  show ?case
  proof (cases "analyze_instance recent i")
    case (Inl e)
    then show ?thesis by auto
  next
    case (Inr x)
    with Cons show ?thesis
      by (cases x; cases "analyze_instances recent ids") auto
  qed
qed

lemma analyze_instances_member:
  "analyze_instances recent ids = Inr recs \<Longrightarrow>
     r \<in> set recs \<longleftrightarrow> (\<exists>i \<in> set ids. analyze_instance recent i = Inr (Some r))"
proof (induction ids arbitrary: recs)
  case Nil
  then show ?case by auto
next
  case (Cons i ids)
  show ?case
  proof (cases "analyze_instance recent i")
    case (Inl e)
    with Cons.prems show ?thesis by simp
  next
    case (Inr x)
    show ?thesis
    proof (cases x)
      case None
      with Inr Cons show ?thesis by auto
    next
      case (Some r')
      with Inr Cons.prems obtain rs where rs: "analyze_instances recent ids = Inr rs"
        and recs: "recs = r' # rs"
        by (cases "analyze_instances recent ids") auto
      from Cons.IH [OF rs] Inr Some recs show ?thesis by auto
    qed
  qed
qed

lemma analyze_instances_count:
  "analyze_instances recent ids = Inr recs \<Longrightarrow> distinct ids \<Longrightarrow>
     length (filter (\<lambda>r. instance_id r = iid) recs) =
       (if iid \<in> set ids \<and> 7 \<le> length (filter (\<lambda>r. ID r = iid) recent) then 1 else 0)"
proof (induction ids arbitrary: recs)
  case Nil
  then show ?case by auto
next
  case (Cons i ids)
  show ?case
  proof (cases "analyze_instance recent i")
    case (Inl e)
    with Cons.prems show ?thesis by simp
  next
    case (Inr x)
    show ?thesis
    proof (cases x)
      case None
      with Inr Cons.prems have rs: "analyze_instances recent ids = Inr recs" by simp
      from None Inr have "length (filter (\<lambda>r. ID r = i) recent) < 7"
        by (simp add: analyze_instance_none)
      with Cons.IH [OF rs] Cons.prems(2) show ?thesis by auto
    next
      case (Some r')
      with Inr Cons.prems obtain rs where rs: "analyze_instances recent ids = Inr rs"
        and recs: "recs = r' # rs"
        by (cases "analyze_instances recent ids") auto
      from Some Inr have r': "7 \<le> length (filter (\<lambda>r. ID r = i) recent)" "instance_id r' = i"
        using analyze_instance_some by blast+
      from Cons.IH [OF rs] Cons.prems(2) recs r' show ?thesis by auto
    qed
  qed
qed

lemma analyze_monthly_trends_recs:
  "analyze_monthly_trends now historical = Inr out \<Longrightarrow>
   filter (in_window now) historical \<noteq> [] \<Longrightarrow>
     analyze_instances (filter (in_window now) historical)
        (unique (map ID (filter (in_window now) historical))) = Inr (recommendations out) \<and>
     analysis out = Some (generate_monthly_summary (filter (in_window now) historical)
        (recommendations out))"
  by (auto simp: analyze_monthly_trends_def Let_def split: if_splits sum.splits)

lemma analyze_monthly_trends_error:
  "(\<exists>e. analyze_monthly_trends now historical = Inl e) \<longleftrightarrow>
     (\<exists>e. analyze_instances (filter (in_window now) historical)
        (unique (map ID (filter (in_window now) historical))) = Inl e)"
  by (cases "filter (in_window now) historical = []")
     (auto simp: analyze_monthly_trends_def Let_def split: if_splits sum.splits)

lemma rows_in_ids:
  "filter (\<lambda>r. ID r = iid) recent \<noteq> [] \<Longrightarrow> iid \<in> set (unique (map ID recent))"
  by (auto simp: set_unique filter_empty_conv)

lemma analyze_instance_generate:
  "7 \<le> length (instance_data recent iid) \<Longrightarrow>
   analyze_instance recent iid =
     (case generate_instance_recommendation iid (Name_Tag (latest_of recent iid))
             (Service (latest_of recent iid)) (Type (latest_of recent iid))
             (cpu_of recent iid) (ram_of recent iid)
             (disk_stats_of (instance_data recent iid)) (length (instance_data recent iid)) of
        Inl e \<Rightarrow> Inl e | Inr r \<Rightarrow> Inr (Some r))"
  by (simp add: analyze_instance_def Let_def)

lemma run_member:
  assumes run: "analyze_monthly_trends now historical = Inr out"
    and inst: "analyze_instance (recent_data now historical) iid = Inr (Some r)"
  shows "r \<in> set (recommendations out)"
proof -
  from analyze_instance_some [OF inst]
  have len: "7 \<le> length (instance_data (recent_data now historical) iid)" by blast
  then have ne: "instance_data (recent_data now historical) iid \<noteq> []" by auto
  then have rne: "recent_data now historical \<noteq> []"
    by (auto simp: filter_empty_conv)
  from rows_in_ids [OF ne] have mem: "iid \<in> set (unique (map ID (recent_data now historical)))" .
  from analyze_monthly_trends_recs [OF run rne]
  have "analyze_instances (recent_data now historical)
          (unique (map ID (recent_data now historical))) = Inr (recommendations out)" by simp
  from analyze_instances_member [OF this] mem inst show ?thesis by blast
qed

text \<open>
  C1, amended: the two percentile bounds are strict. An instance with at least seven
  in-window samples whose statistics satisfy cpuAvg < 15, cpu95 < 30, ramAvg < 25,
  ram95 < 50 and cpuLowPct > 70, and whose latest type has a different smaller type in
  the table, gets a recommendation with action downsize, that smaller type, confidence
  high, and priority high when the estimated savings exceed 100 and medium otherwise;
  the recommendation is in the output of every run that returns one.
\<close>

theorem downsize_rule:
  assumes len: "7 \<le> length (instance_data (recent_data now historical) iid)"
    and cpu: "avg (cpu_of (recent_data now historical) iid) < 15"
             "p95 (cpu_of (recent_data now historical) iid) < 30"
    and ram: "avg (ram_of (recent_data now historical) iid) < 25"
             "p95 (ram_of (recent_data now historical) iid) < 50"
    and low: "low_usage_percentage (cpu_of (recent_data now historical) iid) = Some lp" "lp > 70"
    and ty: "ty = Type (latest_of (recent_data now historical) iid)"
    and svc: "svc = Service (latest_of (recent_data now historical) iid)"
    and smaller: "get_smaller_instance_type ty svc \<noteq> ty"
  shows "\<exists>r. analyze_instance (recent_data now historical) iid = Inr (Some r) \<and>
           instance_id r = iid \<and> current_type r = ty \<and>
           action r = Downsize \<and>
           recommended_type r = get_smaller_instance_type ty svc \<and>
           confidence r = High \<and>
           estimated_monthly_savings r =
             estimate_cost_savings ty (get_smaller_instance_type ty svc) svc \<and>
           priority r = (if estimated_monthly_savings r > 100 then High else Medium) \<and>
           (\<forall>out. analyze_monthly_trends now historical = Inr out \<longrightarrow>
                  r \<in> set (recommendations out))"
proof -
  let ?recent = "recent_data now historical"
  from cpu ram low have cond: "downsize_condition (cpu_of ?recent iid) (ram_of ?recent iid) = Inr True"
    by (simp add: downsize_condition_def)
  define r where "r = projr (generate_instance_recommendation iid (Name_Tag (latest_of ?recent iid))
             svc ty (cpu_of ?recent iid) (ram_of ?recent iid)
             (disk_stats_of (instance_data ?recent iid)) (length (instance_data ?recent iid)))"
  from cond smaller
  have gen: "generate_instance_recommendation iid (Name_Tag (latest_of ?recent iid))
             svc ty (cpu_of ?recent iid) (ram_of ?recent iid)
             (disk_stats_of (instance_data ?recent iid)) (length (instance_data ?recent iid)) = Inr r"
    and props: "instance_id r = iid" "current_type r = ty" "action r = Downsize"
      "recommended_type r = get_smaller_instance_type ty svc" "confidence r = High"
      "estimated_monthly_savings r = estimate_cost_savings ty (get_smaller_instance_type ty svc) svc"
      "priority r = (if estimated_monthly_savings r > 100 then High else Medium)"
    by (simp_all add: r_def generate_instance_recommendation_def Let_def)
  from len gen have inst: "analyze_instance ?recent iid = Inr (Some r)"
    by (simp add: analyze_instance_generate ty svc del: filter_filter)
  from run_member [OF _ inst] inst props show ?thesis by blast
qed

lemma ec2_smaller_cheaper:
  "\<forall>(k, v) \<in> set ec2_downsize_map.
     get_instance_monthly_cost v ''EC2'' < get_instance_monthly_cost k ''EC2''"
  by code_simp

lemma rds_cost_other:
  "s \<noteq> ''EC2'' \<Longrightarrow> get_instance_monthly_cost t s = get_instance_monthly_cost t ''RDS''"
  by (simp add: get_instance_monthly_cost_def)

lemma rds_smaller_cheaper:
  "\<forall>(k, v) \<in> set rds_downsize_map.
     get_instance_monthly_cost v ''RDS'' < get_instance_monthly_cost k ''RDS''"
  by code_simp

lemma ec2_memory_dearer:
  "\<forall>(k, v) \<in> set ec2_memory_optimized_map.
     get_instance_monthly_cost k ''EC2'' < get_instance_monthly_cost v ''EC2''"
  by code_simp

lemma rds_memory_dearer:
  "\<forall>(k, v) \<in> set rds_memory_optimized_map.
     get_instance_monthly_cost k ''RDS'' < get_instance_monthly_cost v ''RDS''"
  by code_simp

lemma smaller_cheaper:
  assumes "get_smaller_instance_type t s \<noteq> t"
  shows "get_instance_monthly_cost (get_smaller_instance_type t s) s
           < get_instance_monthly_cost t s"
proof (cases "s = ''EC2''")
  case True
  with assms obtain v where v: "map_of ec2_downsize_map t = Some v"
    and eq: "get_smaller_instance_type t s = v"
    by (auto simp: get_smaller_instance_type_def table_for_def split: option.splits)
  from bspec [OF ec2_smaller_cheaper map_of_SomeD [OF v]]
  have "get_instance_monthly_cost v ''EC2'' < get_instance_monthly_cost t ''EC2''" by simp
  with True eq show ?thesis by simp
next
  case False
  with assms obtain v where v: "map_of rds_downsize_map t = Some v"
    and eq: "get_smaller_instance_type t s = v"
    by (auto simp: get_smaller_instance_type_def table_for_def split: option.splits)
  from bspec [OF rds_smaller_cheaper map_of_SomeD [OF v]]
  have "get_instance_monthly_cost v ''RDS'' < get_instance_monthly_cost t ''RDS''" by simp
  with eq show ?thesis by (simp add: rds_cost_other [OF False])
qed

lemma memory_dearer:
  assumes "get_memory_optimized_type t s \<noteq> t"
  shows "get_instance_monthly_cost t s
           < get_instance_monthly_cost (get_memory_optimized_type t s) s"
proof (cases "s = ''EC2''")
  case True
  with assms obtain v where v: "map_of ec2_memory_optimized_map t = Some v"
    and eq: "get_memory_optimized_type t s = v"
    by (auto simp: get_memory_optimized_type_def table_for_def split: option.splits)
  from bspec [OF ec2_memory_dearer map_of_SomeD [OF v]]
  have "get_instance_monthly_cost t ''EC2'' < get_instance_monthly_cost v ''EC2''" by simp
  with True eq show ?thesis by simp
next
  case False
  with assms obtain v where v: "map_of rds_memory_optimized_map t = Some v"
    and eq: "get_memory_optimized_type t s = v"
    by (auto simp: get_memory_optimized_type_def table_for_def split: option.splits)
  from bspec [OF rds_memory_dearer map_of_SomeD [OF v]]
  have "get_instance_monthly_cost t ''RDS'' < get_instance_monthly_cost v ''RDS''" by simp
  with eq show ?thesis by (simp add: rds_cost_other [OF False])
qed

lemma generate_costs:
  assumes "generate_instance_recommendation iid nm svc ty cpu ram disk n = Inr r"
  shows "0 \<le> estimated_monthly_savings r \<and> 0 \<le> estimated_monthly_cost_increase r \<and>
     (estimated_monthly_savings r = 0 \<or> estimated_monthly_cost_increase r = 0) \<and>
     (action r = Downsize \<longrightarrow>
        estimated_monthly_savings r =
          max 0 (get_instance_monthly_cost (current_type r) (service r)
                 - get_instance_monthly_cost (recommended_type r) (service r)) \<and>
        0 < estimated_monthly_savings r \<and> estimated_monthly_cost_increase r = 0) \<and>
     (action r = Upsize \<longrightarrow>
        estimated_monthly_cost_increase r =
          max 0 (get_instance_monthly_cost (recommended_type r) (service r)
                 - get_instance_monthly_cost (current_type r) (service r)) \<and>
        estimated_monthly_savings r = 0) \<and>
     (action r = Optimize_memory \<longrightarrow>
        estimated_monthly_cost_increase r =
          max 0 (get_instance_monthly_cost (recommended_type r) (service r)
                 - get_instance_monthly_cost (current_type r) (service r)) \<and>
        0 < estimated_monthly_cost_increase r \<and> estimated_monthly_savings r = 0) \<and>
     (action r = Increase_storage \<longrightarrow>
        estimated_monthly_savings r = 0 \<and> estimated_monthly_cost_increase r = 0)"
proof -
  note sc = smaller_cheaper [of ty svc]
  note md = memory_dearer [of ty svc]
  from assms sc md show ?thesis
    by (auto simp: generate_instance_recommendation_def Let_def estimate_cost_savings_def
        estimate_cost_increase_def split: sum.splits bool.splits if_splits)
qed

text \<open>
  C1, as stated, fails at the boundary: seven in-window samples with CPU average 7.71,
  CPU 95th percentile exactly 30, RAM average 10, RAM 95th percentile 10 and 85.7 percent
  low-usage days, on a type that has a smaller type in the table, are left at
  \<open>Monitor\<close>.
\<close>

theorem downsize_boundary_counterexample:
  "map (avg \<circ> cpu_stats)
     (recommendations_of (analyze_monthly_trends (day 10) (low_history 42 ''t3a.large''))) = [7.71] \<and>
   map (p95 \<circ> cpu_stats)
     (recommendations_of (analyze_monthly_trends (day 10) (low_history 42 ''t3a.large''))) = [30] \<and>
   map (low_usage_percentage \<circ> cpu_stats)
     (recommendations_of (analyze_monthly_trends (day 10) (low_history 42 ''t3a.large''))) = [Some 85.7] \<and>
   map (avg \<circ> ram_stats)
     (recommendations_of (analyze_monthly_trends (day 10) (low_history 42 ''t3a.large''))) = [10] \<and>
   map (p95 \<circ> ram_stats)
     (recommendations_of (analyze_monthly_trends (day 10) (low_history 42 ''t3a.large''))) = [10] \<and>
   map data_points
     (recommendations_of (analyze_monthly_trends (day 10) (low_history 42 ''t3a.large''))) = [7] \<and>
   get_smaller_instance_type ''t3a.large'' ''EC2'' = ''t3a.medium'' \<and>
   map action
     (recommendations_of (analyze_monthly_trends (day 10) (low_history 42 ''t3a.large''))) = [Monitor]"
  by code_simp

theorem downsize_rule_witness:
  "7 \<le> length (instance_data (recent_data (day 10) (low_history 41 ''t3a.large'')) ''i-1'') \<and>
   p95 (cpu_of (recent_data (day 10) (low_history 41 ''t3a.large'')) ''i-1'') = 29.3 \<and>
   (\<exists>r. analyze_instance (recent_data (day 10) (low_history 41 ''t3a.large'')) ''i-1'' = Inr (Some r) \<and>
        action r = Downsize \<and> recommended_type r = ''t3a.medium'' \<and> confidence r = High \<and>
        estimated_monthly_savings r = 26.28 \<and> priority r = Medium \<and>
        r \<in> set (recommendations_of (analyze_monthly_trends (day 10) (low_history 41 ''t3a.large''))))"
proof -
  let ?h = "low_history 41 ''t3a.large''"
  let ?recent = "recent_data (day 10) ?h"
  have len: "7 \<le> length (instance_data ?recent ''i-1'')" by code_simp
  have cpu: "avg (cpu_of ?recent ''i-1'') < 15" "p95 (cpu_of ?recent ''i-1'') < 30"
    by code_simp+
  have ram: "avg (ram_of ?recent ''i-1'') < 25" "p95 (ram_of ?recent ''i-1'') < 50"
    by code_simp+
  have low: "low_usage_percentage (cpu_of ?recent ''i-1'') = Some 85.7" "(85.7::rat) > 70"
    by code_simp+
  have ty: "''t3a.large'' = Type (latest_of ?recent ''i-1'')" by code_simp
  have svc: "''EC2'' = Service (latest_of ?recent ''i-1'')" by code_simp
  have smaller: "get_smaller_instance_type ''t3a.large'' ''EC2'' = ''t3a.medium''" by code_simp
  then have ne: "get_smaller_instance_type ''t3a.large'' ''EC2'' \<noteq> ''t3a.large''" by simp
  have sav: "estimate_cost_savings ''t3a.large'' ''t3a.medium'' ''EC2'' = 26.28" by code_simp
  have p: "p95 (cpu_of ?recent ''i-1'') = 29.3" by code_simp
  have run: "analyze_monthly_trends (day 10) ?h = Inr (projr (analyze_monthly_trends (day 10) ?h))"
    by code_simp
  from downsize_rule [OF len cpu ram low ty svc ne]
  obtain r where r: "analyze_instance ?recent ''i-1'' = Inr (Some r)"
    "action r = Downsize" "recommended_type r = get_smaller_instance_type ''t3a.large'' ''EC2''"
    "confidence r = High"
    "estimated_monthly_savings r =
       estimate_cost_savings ''t3a.large'' (get_smaller_instance_type ''t3a.large'' ''EC2'') ''EC2''"
    "priority r = (if estimated_monthly_savings r > 100 then High else Medium)"
    "\<forall>out. analyze_monthly_trends (day 10) ?h = Inr out \<longrightarrow> r \<in> set (recommendations out)"
    by blast
  from r(7) run have mem: "r \<in> set (recommendations_of (analyze_monthly_trends (day 10) ?h))"
    by (metis recommendations_of_def sum.case(2))
  from r(5) have s: "estimated_monthly_savings r = 26.28" by (simp only: smaller sav)
  from r(6) s have pr: "priority r = Medium" by simp
  from r(3) smaller have rt: "recommended_type r = ''t3a.medium''" by simp
  from len p r(1,2,4) rt s pr mem show ?thesis by blast
qed

lemma upsize_excludes_downsize:
  "upsize_condition cpu = Inr True \<Longrightarrow> downsize_condition cpu ram = Inr False"
  by (auto simp: upsize_condition_def downsize_condition_def split: if_splits option.splits)

lemma memory_excludes_downsize:
  "memory_condition ram = Inr True \<Longrightarrow> downsize_condition cpu ram = Inr False"
  by (auto simp: memory_condition_def downsize_condition_def split: if_splits option.splits)

lemma total_recommendations_skip_monitor:
  "action r = Monitor \<Longrightarrow>
     total_recommendations (generate_monthly_summary data (before @ r # after)) =
     total_recommendations (generate_monthly_summary data (before @ after))"
  by (simp add: generate_monthly_summary_def Let_def)

text \<open>
  C2, amended. When the first guard that holds (downsize, else upsize, else memory) finds
  no other type in its table, the instance still gets a recommendation and no error, but
  its action is \<open>Monitor\<close>, not the branch's action; the recommended type is the current
  type and both estimates are 0. It is in the output of every run that returns one, and
  the summary's count of actionable recommendations is the same with and without it.
\<close>

theorem table_miss_is_monitor:
  assumes len: "7 \<le> length (instance_data (recent_data now historical) iid)"
    and ty: "ty = Type (latest_of (recent_data now historical) iid)"
    and svc: "svc = Service (latest_of (recent_data now historical) iid)"
    and cpu: "cpu = cpu_of (recent_data now historical) iid"
    and ram: "ram = ram_of (recent_data now historical) iid"
    and miss:
      "downsize_condition cpu ram = Inr True \<and> get_smaller_instance_type ty svc = ty \<or>
       upsize_condition cpu = Inr True \<and> get_larger_instance_type ty svc = ty \<or>
       upsize_condition cpu = Inr False \<and> memory_condition ram = Inr True \<and>
         get_memory_optimized_type ty svc = ty"
  shows "\<exists>r. analyze_instance (recent_data now historical) iid = Inr (Some r) \<and>
           instance_id r = iid \<and> action r = Monitor \<and>
           current_type r = ty \<and> recommended_type r = current_type r \<and>
           estimated_monthly_savings r = 0 \<and> estimated_monthly_cost_increase r = 0 \<and>
           (\<forall>out. analyze_monthly_trends now historical = Inr out \<longrightarrow>
                  r \<in> set (recommendations out)) \<and>
           (\<forall>data before after.
              total_recommendations (generate_monthly_summary data (before @ r # after)) =
              total_recommendations (generate_monthly_summary data (before @ after)))"
proof -
  let ?recent = "recent_data now historical"
  define r where "r = projr (generate_instance_recommendation iid (Name_Tag (latest_of ?recent iid))
             svc ty cpu ram (disk_stats_of (instance_data ?recent iid))
             (length (instance_data ?recent iid)))"
  from miss
  have gen: "generate_instance_recommendation iid (Name_Tag (latest_of ?recent iid))
             svc ty cpu ram (disk_stats_of (instance_data ?recent iid))
             (length (instance_data ?recent iid)) = Inr r \<and>
      instance_id r = iid \<and> action r = Monitor \<and> current_type r = ty \<and>
      recommended_type r = current_type r \<and>
      estimated_monthly_savings r = 0 \<and> estimated_monthly_cost_increase r = 0"
  proof (elim disjE conjE)
    assume "downsize_condition cpu ram = Inr True" "get_smaller_instance_type ty svc = ty"
    then show ?thesis
      by (simp add: r_def generate_instance_recommendation_def Let_def)
  next
    assume u: "upsize_condition cpu = Inr True" and "get_larger_instance_type ty svc = ty"
    with upsize_excludes_downsize [OF u] show ?thesis
      by (simp add: r_def generate_instance_recommendation_def Let_def)
  next
    assume "upsize_condition cpu = Inr False" and m: "memory_condition ram = Inr True"
      and "get_memory_optimized_type ty svc = ty"
    with memory_excludes_downsize [OF m] show ?thesis
      by (simp add: r_def generate_instance_recommendation_def Let_def)
  qed
  with len have inst: "analyze_instance ?recent iid = Inr (Some r)"
    by (simp add: analyze_instance_generate ty svc cpu ram del: filter_filter)
  from gen have mon: "action r = Monitor" by simp
  from run_member [OF _ inst] inst gen total_recommendations_skip_monitor [OF mon]
  show ?thesis by blast
qed

text \<open>
  C2, as stated, fails: an instance that meets the downsize thresholds on a type absent
  from the downsize table is not classified as downsize; its action stays
  \<open>Monitor\<close>.
\<close>

theorem table_miss_counterexample:
  "map (avg \<circ> cpu_stats)
     (recommendations_of (analyze_monthly_trends (day 10) (low_history 41 ''t3a.micro''))) = [7.57] \<and>
   map (p95 \<circ> cpu_stats)
     (recommendations_of (analyze_monthly_trends (day 10) (low_history 41 ''t3a.micro''))) = [29.3] \<and>
   map (low_usage_percentage \<circ> cpu_stats)
     (recommendations_of (analyze_monthly_trends (day 10) (low_history 41 ''t3a.micro''))) = [Some 85.7] \<and>
   map (avg \<circ> ram_stats)
     (recommendations_of (analyze_monthly_trends (day 10) (low_history 41 ''t3a.micro''))) = [10] \<and>
   map (p95 \<circ> ram_stats)
     (recommendations_of (analyze_monthly_trends (day 10) (low_history 41 ''t3a.micro''))) = [10] \<and>
   map_of ec2_downsize_map ''t3a.micro'' = None \<and>
   map recommended_type
     (recommendations_of (analyze_monthly_trends (day 10) (low_history 41 ''t3a.micro''))) = [''t3a.micro''] \<and>
   map action
     (recommendations_of (analyze_monthly_trends (day 10) (low_history 41 ''t3a.micro''))) = [Monitor] \<and>
   map action
     (recommendations_of (analyze_monthly_trends (day 10) (low_history 41 ''t3a.micro''))) \<noteq> [Downsize]"
  by code_simp

theorem table_miss_is_monitor_witness:
  "downsize_condition (cpu_of (recent_data (day 10) (low_history 41 ''t3a.micro'')) ''i-1'')
     (ram_of (recent_data (day 10) (low_history 41 ''t3a.micro'')) ''i-1'') = Inr True \<and>
   get_smaller_instance_type ''t3a.micro'' ''EC2'' = ''t3a.micro'' \<and>
   (\<exists>r. analyze_instance (recent_data (day 10) (low_history 41 ''t3a.micro'')) ''i-1'' = Inr (Some r) \<and>
        action r = Monitor \<and> recommended_type r = ''t3a.micro'' \<and>
        r \<in> set (recommendations_of (analyze_monthly_trends (day 10) (low_history 41 ''t3a.micro''))) \<and>
        total_recommendations (generate_monthly_summary [] [r]) = 0)"
proof -
  let ?h = "low_history 41 ''t3a.micro''"
  let ?recent = "recent_data (day 10) ?h"
  have len: "7 \<le> length (instance_data ?recent ''i-1'')" by code_simp
  have ty: "''t3a.micro'' = Type (latest_of ?recent ''i-1'')" by code_simp
  have svc: "''EC2'' = Service (latest_of ?recent ''i-1'')" by code_simp
  have cond: "downsize_condition (cpu_of ?recent ''i-1'') (ram_of ?recent ''i-1'') = Inr True"
    by code_simp
  have same: "get_smaller_instance_type ''t3a.micro'' ''EC2'' = ''t3a.micro''" by code_simp
  have run: "analyze_monthly_trends (day 10) ?h = Inr (projr (analyze_monthly_trends (day 10) ?h))"
    by code_simp
  have empty: "total_recommendations (generate_monthly_summary [] []) = 0" by code_simp
  from cond same
  have miss: "downsize_condition (cpu_of ?recent ''i-1'') (ram_of ?recent ''i-1'') = Inr True \<and>
       get_smaller_instance_type ''t3a.micro'' ''EC2'' = ''t3a.micro'' \<or>
       upsize_condition (cpu_of ?recent ''i-1'') = Inr True \<and>
       get_larger_instance_type ''t3a.micro'' ''EC2'' = ''t3a.micro'' \<or>
       upsize_condition (cpu_of ?recent ''i-1'') = Inr False \<and>
       memory_condition (ram_of ?recent ''i-1'') = Inr True \<and>
       get_memory_optimized_type ''t3a.micro'' ''EC2'' = ''t3a.micro''"
    by blast
  from table_miss_is_monitor [OF len ty svc refl refl miss]
  obtain r where r: "analyze_instance ?recent ''i-1'' = Inr (Some r)"
    "action r = Monitor" "current_type r = ''t3a.micro''" "recommended_type r = current_type r"
    "\<forall>out. analyze_monthly_trends (day 10) ?h = Inr out \<longrightarrow> r \<in> set (recommendations out)"
    "\<forall>data before after.
        total_recommendations (generate_monthly_summary data (before @ r # after)) =
        total_recommendations (generate_monthly_summary data (before @ after))"
    by blast
  from r(5) run have mem: "r \<in> set (recommendations_of (analyze_monthly_trends (day 10) ?h))"
    by (metis recommendations_of_def sum.case(2))
  from r(6) [rule_format, of "[]" "[]" "[]"] empty
  have cnt: "total_recommendations (generate_monthly_summary [] [r]) = 0" by simp
  from r(3,4) have rt: "recommended_type r = ''t3a.micro''" by simp
  from cond same r(1,2) rt mem cnt show ?thesis by blast
qed

text \<open>
  C7 at a failing input: one instance with seven in-window samples whose CPU and RAM cells
  are not numbers. The run raises \<^verbatim>\<open>KeyError\<close> and so yields no recommendation for
  it.
\<close>

theorem missing_key_aborts_run:
  "length (instance_data (recent_data (day 10) blank_history) ''i-1'') = 7 \<and>
   analyze_monthly_trends (day 10) blank_history = Inl (KeyError ''low_usage_percentage'') \<and>
   recommendations_of (analyze_monthly_trends (day 10) blank_history) = []"
  by code_simp

lemma recommendation_count_of_completed_run:
  assumes run: "analyze_monthly_trends now historical = Inr out"
  shows "length (filter (\<lambda>r. instance_id r = iid) (recommendations out)) =
           (if 7 \<le> length (instance_data (recent_data now historical) iid) then 1 else 0)"
proof (cases "recent_data now historical = []")
  case True
  with run have "out = empty_result"
    by (auto simp: analyze_monthly_trends_def Let_def split: if_splits)
  with True show ?thesis by (simp add: empty_result_def del: filter_filter)
next
  case False
  from analyze_monthly_trends_recs [OF run False]
  have recs: "analyze_instances (recent_data now historical)
          (unique (map ID (recent_data now historical))) = Inr (recommendations out)" by simp
  have "7 \<le> length (instance_data (recent_data now historical) iid) \<Longrightarrow>
          iid \<in> set (unique (map ID (recent_data now historical)))"
    by (rule rows_in_ids) auto
  with analyze_instances_count [OF recs distinct_unique, of iid] show ?thesis
    by auto
qed

lemma instance_generated:
  assumes "analyze_instance recent iid = Inr (Some r)"
  shows "\<exists>nm svc ty cpu ram disk n.
           generate_instance_recommendation iid nm svc ty cpu ram disk n = Inr r"
proof -
  from analyze_instance_some [OF assms]
  have len: "7 \<le> length (instance_data recent iid)" by blast
  from assms
  have "generate_instance_recommendation iid (Name_Tag (latest_of recent iid))
          (Service (latest_of recent iid)) (Type (latest_of recent iid))
          (cpu_of recent iid) (ram_of recent iid)
          (disk_stats_of (instance_data recent iid)) (length (instance_data recent iid)) = Inr r"
    unfolding analyze_instance_generate [OF len]
    by (auto split: sum.splits)
  then show ?thesis by blast
qed

text \<open>
  C8, amended. For every recommendation of a run that returns, the estimated savings and
  the estimated cost increase are non-negative and at most one of them is non-zero. A
  downsize reports savings, the clamped price difference, always positive, and no increase;
  an optimize-memory reports an increase, the clamped price difference, always positive,
  and no savings; an upsize reports no savings and the clamped price difference as
  increase, which is 0 when the larger type is the cheaper one in the price table; an
  increase-storage reports 0 for both.
\<close>

theorem cost_estimates:
  assumes run: "analyze_monthly_trends now historical = Inr out"
    and mem: "r \<in> set (recommendations out)"
  shows "0 \<le> estimated_monthly_savings r \<and> 0 \<le> estimated_monthly_cost_increase r \<and>
     (estimated_monthly_savings r = 0 \<or> estimated_monthly_cost_increase r = 0) \<and>
     (action r = Downsize \<longrightarrow>
        estimated_monthly_savings r =
          max 0 (get_instance_monthly_cost (current_type r) (service r)
                 - get_instance_monthly_cost (recommended_type r) (service r)) \<and>
        0 < estimated_monthly_savings r \<and> estimated_monthly_cost_increase r = 0) \<and>
     (action r = Upsize \<longrightarrow>
        estimated_monthly_cost_increase r =
          max 0 (get_instance_monthly_cost (recommended_type r) (service r)
                 - get_instance_monthly_cost (current_type r) (service r)) \<and>
        estimated_monthly_savings r = 0) \<and>
     (action r = Optimize_memory \<longrightarrow>
        estimated_monthly_cost_increase r =
          max 0 (get_instance_monthly_cost (recommended_type r) (service r)
                 - get_instance_monthly_cost (current_type r) (service r)) \<and>
        0 < estimated_monthly_cost_increase r \<and> estimated_monthly_savings r = 0) \<and>
     (action r = Increase_storage \<longrightarrow>
        estimated_monthly_savings r = 0 \<and> estimated_monthly_cost_increase r = 0)"
proof -
  have ne: "recent_data now historical \<noteq> []"
  proof
    assume "recent_data now historical = []"
    with run have "out = empty_result"
      by (auto simp: analyze_monthly_trends_def Let_def split: if_splits)
    with mem show False by (simp add: empty_result_def)
  qed
  from analyze_monthly_trends_recs [OF run ne]
  have "analyze_instances (recent_data now historical)
          (unique (map ID (recent_data now historical))) = Inr (recommendations out)" by simp
  from analyze_instances_member [OF this, of r] mem
  obtain i where "analyze_instance (recent_data now historical) i = Inr (Some r)" by blast
  from instance_generated [OF this]
  obtain nm svc ty cpu ram disk n
    where "generate_instance_recommendation i nm svc ty cpu ram disk n = Inr r" by blast
  from generate_costs [OF this] show ?thesis .
qed

text \<open>
  C8, as stated, fails: an upsize from t3a.2xlarge goes to m5.xlarge, which the price
  table lists as cheaper, so the clamped increase is 0 and neither amount is non-zero.
\<close>

theorem upsize_to_cheaper_counterexample:
  "map action
     (recommendations_of (analyze_monthly_trends (day 10) (busy_history ''t3a.2xlarge''))) = [Upsize] \<and>
   map recommended_type
     (recommendations_of (analyze_monthly_trends (day 10) (busy_history ''t3a.2xlarge''))) = [''m5.xlarge''] \<and>
   get_instance_monthly_cost ''t3a.2xlarge'' ''EC2'' = 210.24 \<and>
   get_instance_monthly_cost ''m5.xlarge'' ''EC2'' = 140.16 \<and>
   map estimated_monthly_savings
     (recommendations_of (analyze_monthly_trends (day 10) (busy_history ''t3a.2xlarge''))) = [0] \<and>
   map estimated_monthly_cost_increase
     (recommendations_of (analyze_monthly_trends (day 10) (busy_history ''t3a.2xlarge''))) = [0]"
  by code_simp

theorem cost_estimates_witness:
  "map action
     (recommendations_of (analyze_monthly_trends (day 10) (low_history 41 ''t3a.large''))) = [Downsize] \<and>
   0 < estimated_monthly_savings
     (hd (recommendations_of (analyze_monthly_trends (day 10) (low_history 41 ''t3a.large'')))) \<and>
   estimated_monthly_cost_increase
     (hd (recommendations_of (analyze_monthly_trends (day 10) (low_history 41 ''t3a.large'')))) = 0"
proof -
  let ?run = "analyze_monthly_trends (day 10) (low_history 41 ''t3a.large'')"
  have run: "?run = Inr (projr ?run)" by code_simp
  have recs: "recommendations_of ?run = recommendations (projr ?run)"
    by (metis run recommendations_of_def sum.case(2))
  have act: "map action (recommendations_of ?run) = [Downsize]" by code_simp
  then have mem: "hd (recommendations_of ?run) \<in> set (recommendations (projr ?run))"
    unfolding recs by (cases "recommendations (projr ?run)") auto
  from act have a: "action (hd (recommendations_of ?run)) = Downsize"
    by (cases "recommendations_of ?run") auto
  from cost_estimates [OF run mem] a act show ?thesis by simp
qed








text \<open>
  C10. The statistics of a column without a number are the reduced record: zeros, and no
  \<open>low_usage_percentage\<close> or \<open>high_usage_percentage\<close>. The analysis of an instance
  raises exactly when it has at least seven in-window samples, no numeric CPU value, and RAM
  statistics below the downsize thresholds, and then with the missing key
  \<open>low_usage_percentage\<close>; in particular when neither CPU nor RAM holds a number.
  The whole run returns exactly when no instance of the window is of that kind.
\<close>

theorem missing_key_error:
  "(numeric column = [] \<longrightarrow>
      calculate_utilization_stats column =
        \<lparr>avg = 0, max_val = 0, min_val = 0, p95 = 0, p90 = 0, low_usage_days = 0,
         high_usage_days = None, total_days = None,
         low_usage_percentage = None, high_usage_percentage = None\<rparr>) \<and>
   (analyze_instance recent iid = Inl e \<longleftrightarrow>
      7 \<le> length (instance_data recent iid) \<and>
      numeric (map CPUUtilization (instance_data recent iid)) = [] \<and>
      avg (ram_of recent iid) < 25 \<and> p95 (ram_of recent iid) < 50 \<and>
      e = KeyError ''low_usage_percentage'') \<and>
   (7 \<le> length (instance_data recent iid) \<and>
    numeric (map CPUUtilization (instance_data recent iid)) = [] \<and>
    numeric (map RAMUtilization (instance_data recent iid)) = [] \<longrightarrow>
      analyze_instance recent iid = Inl (KeyError ''low_usage_percentage'')) \<and>
   ((\<exists>out. analyze_monthly_trends now historical = Inr out) \<longleftrightarrow>
      (\<forall>i \<in> set (map ID (recent_data now historical)).
         length (instance_data (recent_data now historical) i) < 7 \<or>
         numeric (map CPUUtilization (instance_data (recent_data now historical) i)) \<noteq> [] \<or>
         \<not> (avg (ram_of (recent_data now historical) i) < 25 \<and>
            p95 (ram_of (recent_data now historical) i) < 50)))"
proof -
  let ?recent = "recent_data now historical"
  have a: "numeric column = [] \<longrightarrow>
      calculate_utilization_stats column =
        \<lparr>avg = 0, max_val = 0, min_val = 0, p95 = 0, p90 = 0, low_usage_days = 0,
         high_usage_days = None, total_days = None,
         low_usage_percentage = None, high_usage_percentage = None\<rparr>"
    by (simp add: stats_reduced)
  note b = analyze_instance_error [of recent iid e]
  have c: "analyze_instance recent iid = Inl (KeyError ''low_usage_percentage'')"
    if "7 \<le> length (instance_data recent iid)"
      "numeric (map CPUUtilization (instance_data recent iid)) = []"
      "numeric (map RAMUtilization (instance_data recent iid)) = []"
    using that by (simp add: analyze_instance_error stats_reduced)
  have "(\<exists>out. analyze_monthly_trends now historical = Inr out) \<longleftrightarrow>
          \<not> (\<exists>e. analyze_monthly_trends now historical = Inl e)"
    by (cases "analyze_monthly_trends now historical") auto
  also have "\<dots> \<longleftrightarrow> \<not> (\<exists>i \<in> set (map ID ?recent). \<exists>e. analyze_instance ?recent i = Inl e)"
    by (simp only: analyze_monthly_trends_error analyze_instances_error set_unique)
  also have "\<dots> \<longleftrightarrow> (\<forall>i \<in> set (map ID ?recent).
         length (instance_data ?recent i) < 7 \<or>
         numeric (map CPUUtilization (instance_data ?recent i)) \<noteq> [] \<or>
         \<not> (avg (ram_of ?recent i) < 25 \<and> p95 (ram_of ?recent i) < 50))"
    unfolding analyze_instance_error by (auto simp del: filter_filter)
  finally have d: "(\<exists>out. analyze_monthly_trends now historical = Inr out) \<longleftrightarrow>
     (\<forall>i \<in> set (map ID ?recent).
         length (instance_data ?recent i) < 7 \<or>
         numeric (map CPUUtilization (instance_data ?recent i)) \<noteq> [] \<or>
         \<not> (avg (ram_of ?recent i) < 25 \<and> p95 (ram_of ?recent i) < 50))" .
  from a b c d show ?thesis by blast
qed

theorem missing_key_error_witness:
  "calculate_utilization_stats [None, None] =
     \<lparr>avg = 0, max_val = 0, min_val = 0, p95 = 0, p90 = 0, low_usage_days = 0,
      high_usage_days = None, total_days = None,
      low_usage_percentage = None, high_usage_percentage = None\<rparr> \<and>
   analyze_instance (recent_data (day 10) blank_history) ''i-1'' =
     Inl (KeyError ''low_usage_percentage'') \<and>
   \<not> (\<exists>out. analyze_monthly_trends (day 10) blank_history = Inr out) \<and>
   (\<exists>out. analyze_monthly_trends (day 10) (low_history 41 ''t3a.large'') = Inr out)"
proof -
  let ?recent = "recent_data (day 10) blank_history"
  let ?ok = "recent_data (day 10) (low_history 41 ''t3a.large'')"
  have n: "numeric [None, None] = []" by code_simp
  have len: "7 \<le> length (instance_data ?recent ''i-1'')" by code_simp
  have cpu: "numeric (map CPUUtilization (instance_data ?recent ''i-1'')) = []" by code_simp
  have ram: "numeric (map RAMUtilization (instance_data ?recent ''i-1'')) = []" by code_simp
  have ids: "''i-1'' \<in> set (map ID ?recent)" by code_simp
  have ramlow: "avg (ram_of ?recent ''i-1'') < 25 \<and> p95 (ram_of ?recent ''i-1'') < 50"
    by code_simp
  have okids: "\<forall>i \<in> set (map ID ?ok).
      numeric (map CPUUtilization (instance_data ?ok i)) \<noteq> []"
    by code_simp
  note t1 = missing_key_error [of "[None, None]" ?recent "''i-1''" "KeyError ''low_usage_percentage''"
      "day 10" blank_history]
  note t2 = missing_key_error [of "[None, None]" ?recent "''i-1''" "KeyError ''low_usage_percentage''"
      "day 10" "low_history 41 ''t3a.large''"]
  from t1 n have s: "calculate_utilization_stats [None, None] =
     \<lparr>avg = 0, max_val = 0, min_val = 0, p95 = 0, p90 = 0, low_usage_days = 0,
      high_usage_days = None, total_days = None,
      low_usage_percentage = None, high_usage_percentage = None\<rparr>" by blast
  from t1 len cpu ram
  have e: "analyze_instance ?recent ''i-1'' = Inl (KeyError ''low_usage_percentage'')" by blast
  from t1 len cpu ramlow ids
  have f: "\<not> (\<exists>out. analyze_monthly_trends (day 10) blank_history = Inr out)"
    by (metis not_less)
  from t2 okids
  have g: "\<exists>out. analyze_monthly_trends (day 10) (low_history 41 ''t3a.large'') = Inr out"
    by blast
  from s e f g show ?thesis by blast
qed

end
